theory Spec2Isabelle
  imports Complex_Main "HOL-Library.Sublist"
begin

section \<open>Python values shared by the modules\<close>

text \<open>
  Text is modelled as \<open>string\<close> in the ASCII range: \<open>str.upper\<close> maps \<open>a..z\<close> to
  \<open>A..Z\<close> and leaves every other character as it is.

  An attribute of a provider object (or a key of a provider mapping) is in one of three
  states: not there at all, there with the value \<open>None\<close>, or there with a value.
\<close>

datatype 'a attr = Absent | PyNone | Val 'a

definition upper_char :: "char \<Rightarrow> char" where
  "upper_char c =
     (case map_of (zip ''abcdefghijklmnopqrstuvwxyz'' ''ABCDEFGHIJKLMNOPQRSTUVWXYZ'') c of
        Some u \<Rightarrow> u
      | None \<Rightarrow> c)"

definition upper :: "string \<Rightarrow> string" where
  "upper s = map upper_char s"



text \<open>
  Errors, one constructor for each place an exception leaves a function of \<open>dub.py\<close>:
  \<^item> \<open>InvalidLocale\<close>: the \<open>ValueError\<close> of \<open>create_dub_job\<close> for an unsupported locale;
  \<^item> \<open>UnexpectedResponseFormat\<close>: the \<open>ValueError\<close> of \<open>create_dub_job\<close> when the reply
    has no attribute dictionary;
  \<^item> \<open>PollTimeout\<close>: the \<open>TimeoutError\<close> of \<open>poll_job_until_complete\<close>;
  \<^item> \<open>External\<close>: an exception raised by a collaborator (file system, provider client,
    \<open>time.sleep\<close>, \<open>dict\<close>, HTTP download, language model) and not caught, with its message.
\<close>

datatype error =
    InvalidLocale string
  | UnexpectedResponseFormat string
  | PollTimeout
  | External string


section \<open>Job Poller: \<open>poll_job_until_complete\<close>\<close>

record descriptor =
  download_url :: "string attr"
  download_srt_url :: "string attr"

text \<open>
  The fields of a status mapping that the repository reads: \<open>status\<close> and
  \<open>download_details\<close> (\<open>app.py\<close>), \<open>result\<close> (\<open>main.py\<close>, a mapping from field names to
  URLs, \<open>None\<close> for a missing key).
\<close>

record status_dict =
  status :: "string attr"
  download_details :: "descriptor list attr"
  result :: "(string \<Rightarrow> string option) attr"

text \<open>
  What \<open>get_status\<close> can do: return an object with \<open>to_dict\<close>, an object with
  \<open>__dict__\<close>, something \<open>dict()\<close> accepts, something \<open>dict()\<close> rejects, or raise.
\<close>

datatype reply =
    ToDictReply status_dict
  | DictAttrReply status_dict
  | MappingReply status_dict
  | Unconvertible string
  | ProviderRaises string

fun to_status_dict :: "reply \<Rightarrow> error + status_dict" where
  "to_status_dict (ToDictReply d) = Inr d"
| "to_status_dict (DictAttrReply d) = Inr d"
| "to_status_dict (MappingReply d) = Inr d"
| "to_status_dict (Unconvertible msg) = Inl (External msg)"
| "to_status_dict (ProviderRaises msg) = Inl (External msg)"

text \<open>\<open>str(status_dict.get("status", ""))\<close>\<close>

fun status_str :: "string attr \<Rightarrow> string" where
  "status_str Absent = ''''"
| "status_str PyNone = ''None''"
| "status_str (Val s) = s"

definition is_terminal :: "string \<Rightarrow> bool" where
  "is_terminal s \<longleftrightarrow> s = ''COMPLETED'' \<or> s = ''FAILED'' \<or> s = ''ERROR''"

text \<open>
  \<open>min(poll_interval * (1 + attempt // 10), 15)\<close>, with \<open>attempt\<close> the counter after its
  increment.
\<close>

definition sleep_time :: "real \<Rightarrow> nat \<Rightarrow> real" where
  "sleep_time poll_interval attempt = min (poll_interval * real (1 + attempt div 10)) 15"

text \<open>
  The loop. The provider is the sequence of its replies (\<open>provider n\<close> answers query number
  \<open>n\<close>, counted from 0) and the clock the sequence of the values \<open>time.time()\<close> returns
  (\<open>clock 0\<close> is \<open>start\<close>, \<open>clock (n + 1)\<close> is read after reply \<open>n\<close>). The loop returns the
  result, the number of queries issued and the sleeps requested; \<open>None\<close> is a loop that
  never ends. \<open>time.sleep\<close> raises \<open>ValueError\<close> on a negative duration.
\<close>

partial_function (option) poll_loop ::
  "(nat \<Rightarrow> reply) \<Rightarrow> (nat \<Rightarrow> real) \<Rightarrow> real \<Rightarrow> real \<Rightarrow> real \<Rightarrow> nat \<Rightarrow> nat \<Rightarrow> real list
   \<Rightarrow> ((error + status_dict) \<times> nat \<times> real list) option" where
  "poll_loop provider clock poll_interval timeout_sec start attempt n slept =
     (case to_status_dict (provider n) of
        Inl e \<Rightarrow> Some (Inl e, Suc n, slept)
      | Inr d \<Rightarrow>
          if is_terminal (upper (status_str (status d))) then Some (Inr d, Suc n, slept)
          else if clock (Suc n) - start > timeout_sec then Some (Inl PollTimeout, Suc n, slept)
          else if sleep_time poll_interval (attempt + 1) < 0
            then Some (Inl (External ''sleep length must be non-negative''), Suc n, slept)
          else poll_loop provider clock poll_interval timeout_sec start (attempt + 1) (Suc n)
                 (slept @ [sleep_time poll_interval (attempt + 1)]))"

declare poll_loop.simps [code]

definition poll_job_until_complete ::
  "(nat \<Rightarrow> reply) \<Rightarrow> (nat \<Rightarrow> real) \<Rightarrow> real \<Rightarrow> real
   \<Rightarrow> ((error + status_dict) \<times> nat \<times> real list) option" where
  "poll_job_until_complete provider clock poll_interval timeout_sec =
     poll_loop provider clock poll_interval timeout_sec (clock 0) 0 0 []"

text \<open>A reply that carries a status and whose status is not terminal.\<close>

definition nonterminal_reply :: "reply \<Rightarrow> bool" where
  "nonterminal_reply r =
     (case to_status_dict r of
        Inl e \<Rightarrow> False
      | Inr d \<Rightarrow> \<not> is_terminal (upper (status_str (status d))))"

definition running :: status_dict where
  "running = \<lparr>status = Val ''RUNNING'', download_details = PyNone, result = Absent\<rparr>"

definition completed :: status_dict where
  "completed = \<lparr>status = Val ''COMPLETED'', download_details = Val [], result = Absent\<rparr>"


section \<open>Job Submission: \<open>create_dub_job\<close>\<close>

definition TARGET_LOCALES :: "string list" where
  "TARGET_LOCALES =
     [''en_US'', ''en_UK'', ''en_IN'', ''en_SCOTT'', ''en_AU'',
      ''fr_FR'', ''de_DE'', ''es_ES'', ''es_MX'', ''it_IT'', ''pt_BR'', ''pl_PL'',
      ''hi_IN'', ''ko_KR'', ''ta_IN'', ''bn_IN'', ''ja_JP'', ''zh_CN'', ''nl_NL'', ''fi_FI'',
      ''ru_RU'', ''tr_TR'', ''uk_UA'', ''da_DK'', ''id_ID'', ''ro_RO'', ''nb_NO'']"

text \<open>The two identifier fields of the provider's reply to a creation request.\<close>

record create_fields =
  id_field :: "string attr"
  job_id_field :: "string attr"

text \<open>
  What \<open>jobs.create\<close> can do: return a \<open>dict\<close>, an object with \<open>__dict__\<close>, an object
  without \<open>__dict__\<close> (with the message of the \<open>AttributeError\<close> that reading it raises),
  or raise.
\<close>

datatype create_reply =
    DictReply create_fields
  | ObjectReply create_fields
  | NoDictReply create_fields string
  | CreateRaises string

text \<open>\<open>res.get(name)\<close> and \<open>getattr(res, name, None)\<close>: \<open>None\<close> when the field is not there.\<close>

fun get_or_none :: "string attr \<Rightarrow> string option" where
  "get_or_none (Val v) = Some v"
| "get_or_none _ = None"

text \<open>Python's \<open>a or b\<close> on optional strings: \<open>a\<close> when it is a non-empty string, else \<open>b\<close>.\<close>

fun py_or :: "string option \<Rightarrow> string option \<Rightarrow> string option" where
  "py_or (Some (c # cs)) b = Some (c # cs)"
| "py_or _ b = b"

text \<open>The \<open>SimpleNamespace(id=..., raw=...)\<close> that \<open>create_dub_job\<close> returns.\<close>

record dub_job =
  ns_id :: "string option"
  ns_raw :: create_fields

text \<open>
  The calls that leave the process: opening the media file and the creation request
  (target locales, file name, file content, priority).
\<close>

datatype io_event =
    OpenFile string
  | CreateRequest "string list" string string string

definition basename :: "string \<Rightarrow> string" where
  "basename path = rev (takeWhile (\<lambda>c. c \<noteq> CHR ''/'') (rev path))"

definition invalid_locale_message :: "string \<Rightarrow> string" where
  "invalid_locale_message target_locale =
     ''target_locale '' @ [CHR 0x27] @ target_locale @ [CHR 0x27]
       @ '' not in supported TARGET_LOCALES.''"

text \<open>
  \<open>fs\<close> is the file system (\<open>None\<close>: \<open>open\<close> raises) and \<open>create\<close> the provider's answer to
  a creation request. The result comes with the calls made, in order.
\<close>

definition create_dub_job ::
  "(string \<Rightarrow> string option) \<Rightarrow> (string list \<Rightarrow> string \<Rightarrow> string \<Rightarrow> string \<Rightarrow> create_reply)
   \<Rightarrow> string \<Rightarrow> string \<Rightarrow> string \<Rightarrow> (error + dub_job) \<times> io_event list" where
  "create_dub_job fs create file_path target_locale priority =
     (if target_locale \<notin> set TARGET_LOCALES
      then (Inl (InvalidLocale (invalid_locale_message target_locale)), [])
      else case fs file_path of
        None \<Rightarrow> (Inl (External ''open failed''), [OpenFile file_path])
      | Some f \<Rightarrow>
         (let calls = [OpenFile file_path,
                       CreateRequest [target_locale] (basename file_path) f priority]
          in (case create [target_locale] (basename file_path) f priority of
               CreateRaises msg \<Rightarrow> (Inl (External msg), calls)
             | DictReply res \<Rightarrow>
                 (Inr \<lparr>ns_id = py_or (get_or_none (id_field res)) (get_or_none (job_id_field res)),
                       ns_raw = res\<rparr>, calls)
             | ObjectReply res \<Rightarrow>
                 (Inr \<lparr>ns_id = py_or (get_or_none (id_field res)) (get_or_none (job_id_field res)),
                       ns_raw = res\<rparr>, calls)
             | NoDictReply res msg \<Rightarrow>
                 (Inl (UnexpectedResponseFormat (''Unexpected response format: '' @ msg)), calls))))"

text \<open>A file system with one media file, and a reply without either identifier.\<close>

definition example_fs :: "string \<Rightarrow> string option" where
  "example_fs path = (if path = ''downloads/talk.mp4'' then Some ''video bytes'' else None)"

definition no_id_fields :: create_fields where
  "no_id_fields = \<lparr>id_field = Absent, job_id_field = Absent\<rparr>"

section \<open>Subtitle helpers: \<open>srt_to_plain_text\<close>\<close>

text \<open>
  The three patterns of \<open>srt_to_plain_text\<close> are sequences of character classes with a
  greedy repetition count, and the line anchors of \<open>(?m)\<close>. \<open>\d\<close> and \<open>\s\<close> are the
  classes of the ASCII range: the digits, and the characters for which \<open>str.isspace\<close> holds
  (tab, line feed, vertical tab, form feed, carriage return, the separators 28 to 31, space).
\<close>

datatype cls = Digit | Space | Lit char

definition is_digit :: "char \<Rightarrow> bool" where
  "is_digit c \<longleftrightarrow> c \<in> set ''0123456789''"

definition is_space :: "char \<Rightarrow> bool" where
  "is_space c \<longleftrightarrow> (of_char c :: nat) \<in> set [9, 10, 11, 12, 13, 28, 29, 30, 31, 32]"

fun in_cls :: "cls \<Rightarrow> char \<Rightarrow> bool" where
  "in_cls Digit c = is_digit c"
| "in_cls Space c = is_space c"
| "in_cls (Lit l) c = (c = l)"

text \<open>
  \<open>Rep c lo hi\<close>: between \<open>lo\<close> and \<open>hi\<close> characters of class \<open>c\<close> (no upper bound when \<open>hi\<close>
  is \<open>None\<close>), as many as possible first. \<open>Bol\<close> and \<open>Eol\<close>: \<open>^\<close> and \<open>$\<close> in multi-line mode.
\<close>

datatype item = Rep cls nat "nat option" | Bol | Eol

fun first_some :: "(nat \<Rightarrow> nat option) \<Rightarrow> nat list \<Rightarrow> nat option" where
  "first_some f [] = None"
| "first_some f (k # ks) = (case f k of Some r \<Rightarrow> Some r | None \<Rightarrow> first_some f ks)"

text \<open>The character before the position reached after \<open>k\<close> characters of \<open>s\<close>.\<close>

definition prev_after :: "char option \<Rightarrow> string \<Rightarrow> nat \<Rightarrow> char option" where
  "prev_after prev s k = (if k = 0 then prev else Some (s ! (k - 1)))"

text \<open>
  The backtracking match at one position: the number of characters of the first match in
  the engine's order of trial (longest repetition first, item by item), \<open>None\<close> when no
  trial succeeds. \<open>prev\<close> is the character before the position (\<open>None\<close> at the start).
\<close>

fun match_here :: "item list \<Rightarrow> char option \<Rightarrow> string \<Rightarrow> nat option" where
  "match_here [] prev s = Some 0"
| "match_here (Bol # items) prev s =
     (if prev = None \<or> prev = Some CHR 0x0A then match_here items prev s else None)"
| "match_here (Eol # items) prev s =
     (if s = [] \<or> hd s = CHR 0x0A then match_here items prev s else None)"
| "match_here (Rep c lo hi # items) prev s =
     (let n = length (takeWhile (in_cls c) s);
          kmax = (case hi of None \<Rightarrow> n | Some h \<Rightarrow> min h n)
      in first_some
           (\<lambda>k. map_option (\<lambda>j. k + j) (match_here items (prev_after prev s k) (drop k s)))
           (rev [lo..<Suc kmax]))"

text \<open>
  \<open>re.sub\<close>: scan from the left, replace each match and go on after it; a character where
  nothing matches is copied. (None of the three patterns matches the empty string; for an
  empty match the replacement is inserted and the scan moves on by one character.)
\<close>

function re_sub :: "item list \<Rightarrow> string \<Rightarrow> char option \<Rightarrow> string \<Rightarrow> string" where
  "re_sub items repl prev [] = (case match_here items prev [] of Some k \<Rightarrow> repl | None \<Rightarrow> [])"
| "re_sub items repl prev (c # s) =
     (case match_here items prev (c # s) of
        None \<Rightarrow> c # re_sub items repl (Some c) s
      | Some 0 \<Rightarrow> repl @ c # re_sub items repl (Some c) s
      | Some (Suc k) \<Rightarrow> repl @ re_sub items repl (Some ((c # s) ! k)) (drop k s))"
  by pat_completeness auto
termination
  by (relation "measure (\<lambda>(items, repl, prev, s). length s)") auto

definition lit :: "char \<Rightarrow> item" where
  "lit c = Rep (Lit c) 1 (Some 1)"

definition digits :: "nat \<Rightarrow> item" where
  "digits n = Rep Digit n (Some n)"

text \<open>\<open>\d{2}:\d{2}:\d{2},\d{3}\<close>\<close>

definition timestamp :: "item list" where
  "timestamp = [digits 2, lit CHR '':'', digits 2, lit CHR '':'', digits 2, lit CHR '','', digits 3]"

text \<open>\<open>\d+\s*\n\d{2}:\d{2}:\d{2},\d{3}\s*-->\s*\d{2}:\d{2}:\d{2},\d{3}\<close>\<close>

definition cue_pattern :: "item list" where
  "cue_pattern =
     [Rep Digit 1 None, Rep Space 0 None, lit CHR 0x0A] @ timestamp
     @ [Rep Space 0 None, lit CHR ''-'', lit CHR ''-'', lit CHR ''>'', Rep Space 0 None]
     @ timestamp"

text \<open>\<open>\n{2,}\<close>\<close>

definition newlines_pattern :: "item list" where
  "newlines_pattern = [Rep (Lit CHR 0x0A) 2 None]"

text \<open>\<open>(?m)^\d+\s*$\<close>\<close>

definition number_line_pattern :: "item list" where
  "number_line_pattern = [Bol, Rep Digit 1 None, Rep Space 0 None, Eol]"

text \<open>\<open>str.strip()\<close>\<close>

definition strip :: "string \<Rightarrow> string" where
  "strip s = rev (dropWhile is_space (rev (dropWhile is_space s)))"


definition decode_utf8_ignore :: "string \<Rightarrow> string" where
  "decode_utf8_ignore bs = filter (\<lambda>b. (of_char b :: nat) < 128) bs"

definition srt_to_plain_text :: "string \<Rightarrow> string" where
  "srt_to_plain_text srt_bytes =
     (let text = decode_utf8_ignore srt_bytes;
          text = re_sub cue_pattern [] None text;
          text = re_sub newlines_pattern [CHR 0x0A] None text;
          text = re_sub number_line_pattern [] None text
      in strip text)"



text \<open>The subtitle bytes of the end-to-end scenario.\<close>

definition srt_example :: string where
  "srt_example =
     ''1'' @ [CHR 0x0A] @ ''00:00:01,000 --> 00:00:02,000'' @ [CHR 0x0A]
     @ ''Hello world'' @ [CHR 0x0A, CHR 0x0A]
     @ ''2'' @ [CHR 0x0A] @ ''00:00:02,500 --> 00:00:03,000'' @ [CHR 0x0A]
     @ ''Second line'' @ [CHR 0x0A]"



section \<open>Notes via the language model: \<open>generate_notes_from_text\<close>\<close>

text \<open>\<open>NOTES_PROMPT.format(text=text)\<close>; the dash of \<open>4-7\<close> is an en dash, here in its UTF-8 bytes.\<close>

definition NOTES_PROMPT_format :: "string \<Rightarrow> string" where
  "NOTES_PROMPT_format text =
     [CHR 0x0A]
     @ ''You are a helpful teacher. Create compact class notes in bullet points from the following transcript text.''
     @ [CHR 0x0A, CHR 0x0A] @ ''Rules:'' @ [CHR 0x0A]
     @ ''- 4'' @ [CHR 0xE2, CHR 0x80, CHR 0x93] @ ''7 concise bullets.'' @ [CHR 0x0A]
     @ ''- Keep each bullet <= 2 lines.'' @ [CHR 0x0A]
     @ ''- No new facts not present in text.'' @ [CHR 0x0A]
     @ ''- Use plain language.'' @ [CHR 0x0A, CHR 0x0A]
     @ ''Transcript:'' @ [CHR 0x0A] @ text @ [CHR 0x0A, CHR 0x0A]
     @ ''Notes:'' @ [CHR 0x0A]"

text \<open>
  What \<open>chat.invoke\<close> can do: return a message with text content, raise an \<open>Exception\<close>
  (with its \<open>str\<close>), or raise something that is not an \<open>Exception\<close> (\<open>KeyboardInterrupt\<close>,
  \<open>SystemExit\<close>), which \<open>except Exception\<close> lets through.
\<close>

datatype llm_result = Content string | RaisesException string | RaisesBaseException string

definition generate_notes_from_text :: "(string \<Rightarrow> llm_result) \<Rightarrow> string \<Rightarrow> error + string" where
  "generate_notes_from_text invoke text =
     (let prompt_text = NOTES_PROMPT_format text
      in case invoke prompt_text of
           Content c \<Rightarrow> Inr (strip c)
         | RaisesException e \<Rightarrow> Inr (''- (Error generating notes) '' @ e)
         | RaisesBaseException e \<Rightarrow> Inl (External e))"

section \<open>Result Resolver: step 3 of the dub pipeline in \<open>app.py\<close>\<close>


text \<open>
  How step 3 ends. Each failure is an \<open>st.error\<close> message followed by \<open>st.stop()\<close>:
  \<^item> \<open>NotCompleted s\<close>: "Dub job did not complete. Status: s";
  \<^item> \<open>NoDownloadDetails\<close>: "No download details returned.";
  \<^item> \<open>NoDubbedMedia\<close>: "No dubbed video found.";
  \<^item> \<open>TimedOut\<close>: "Dubbing took too long and timed out. Please retry later.";
  \<^item> \<open>MissingAttribute a\<close>: "Error during dubbing: ..." for the \<open>AttributeError\<close> of
    reading attribute \<open>a\<close>;
  \<^item> \<open>DubbingError msg\<close>: "Error during dubbing: msg" for any other exception.

  \<open>Resolved video srt\<close> is the normal end: the dubbed bytes and, when fetched, the subtitles.
\<close>

datatype step3_outcome =
    NotCompleted string
  | NoDownloadDetails
  | NoDubbedMedia
  | TimedOut
  | MissingAttribute string
  | DubbingError string
  | Resolved string "string option"





section \<open>The status endpoint: \<open>api_dub_status\<close> in \<open>main.py\<close>\<close>




section \<open>Properties of the Job Poller\<close>

lemma to_status_dict_error: "to_status_dict r = Inl e \<Longrightarrow> \<exists>m. e = External m"
  by (cases r) auto

lemma sleep_time_nonneg: "0 \<le> I \<Longrightarrow> 0 \<le> sleep_time I a"
  by (simp add: sleep_time_def)

lemma poll_step_nonterminal:
  assumes "nonterminal_reply (provider n)" "clock (Suc n) - start \<le> T" "0 \<le> I"
  shows "poll_loop provider clock I T start a n sl =
         poll_loop provider clock I T start (a + 1) (Suc n) (sl @ [sleep_time I (a + 1)])"
proof -
  have "\<not> sleep_time I (a + 1) < 0"
    using sleep_time_nonneg [OF assms(3), of "a + 1"] by simp
  then show ?thesis
    using assms(1,2)
    by (subst poll_loop.simps) (auto simp: nonterminal_reply_def split: sum.splits)
qed

lemma poll_step_timeout:
  assumes "nonterminal_reply (provider n)" "clock (Suc n) - start > T"
  shows "poll_loop provider clock I T start a n sl = Some (Inl PollTimeout, Suc n, sl)"
  using assms
  by (subst poll_loop.simps) (auto simp: nonterminal_reply_def split: sum.splits)

lemma poll_step_terminal:
  assumes "to_status_dict (provider n) = Inr d" "is_terminal (upper (status_str (status d)))"
  shows "poll_loop provider clock I T start a n sl = Some (Inr d, Suc n, sl)"
  using assms
  by (subst poll_loop.simps) auto

text \<open>A run of checks within the timeout followed by one beyond it ends in the timeout.\<close>

lemma poll_loop_timeout:
  assumes nt: "\<forall>k. nonterminal_reply (provider k)" and I: "0 \<le> I"
    and gt: "clock (Suc m) - start > T"
  shows "n \<le> m \<Longrightarrow> \<forall>k. n \<le> k \<and> k < m \<longrightarrow> clock (Suc k) - start \<le> T \<Longrightarrow>
         poll_loop provider clock I T start n n sl =
         Some (Inl PollTimeout, Suc m, sl @ map (sleep_time I) [Suc n ..< Suc m])"
proof (induction "m - n" arbitrary: n sl)
  case 0
  then have "n = m" by simp
  then show ?case
    using poll_step_timeout [of provider m T clock start I m sl] nt gt by simp
next
  case (Suc d)
  then have lt: "n < m" by simp
  have st: "poll_loop provider clock I T start n n sl =
            poll_loop provider clock I T start (Suc n) (Suc n) (sl @ [sleep_time I (Suc n)])"
    using poll_step_nonterminal [of provider n clock start T I n sl] nt I Suc.prems(2) lt
    by simp
  have "poll_loop provider clock I T start (Suc n) (Suc n) (sl @ [sleep_time I (Suc n)]) =
        Some (Inl PollTimeout, Suc m,
              (sl @ [sleep_time I (Suc n)]) @ map (sleep_time I) [Suc (Suc n) ..< Suc m])"
    using Suc.hyps(1) [of "Suc n"] Suc.hyps(2) Suc.prems lt by auto
  moreover have "[Suc n ..< Suc m] = Suc n # [Suc (Suc n) ..< Suc m]"
    using lt by (simp add: upt_conv_Cons)
  ultimately show ?case using st by simp
qed

text \<open>
  What a returned result says about the run: the last query is the one before the count;
  a payload is the terminal reply of the last query; a timeout was raised on a reading
  beyond the limit; any other error is the last reply's or a negative sleep; the sleeps
  are those of the attempts in order.
\<close>

lemma poll_loop_result:
  assumes "poll_loop provider clock I T start a n sl = Some (r, q, sl')"
  shows "n < q
    \<and> (\<forall>d. r = Inr d \<longrightarrow>
          to_status_dict (provider (q - 1)) = Inr d \<and> is_terminal (upper (status_str (status d))))
    \<and> (r = Inl PollTimeout \<longrightarrow> nonterminal_reply (provider (q - 1)) \<and> clock q - start > T)
    \<and> (\<forall>e. r = Inl e \<longrightarrow> e = PollTimeout \<or> to_status_dict (provider (q - 1)) = Inl e
          \<or> (\<exists>m. e = External m) \<and> sleep_time I (a + (q - n)) < 0)
    \<and> sl' = sl @ map (sleep_time I) [Suc a ..< a + (q - n)]"
proof -
  let ?P = "\<lambda>provider clock (I::real) T start (a::nat) n (sl::real list) y.
     n < fst (snd y)
    \<and> (\<forall>d. fst y = Inr d \<longrightarrow>
          to_status_dict (provider (fst (snd y) - 1)) = Inr d
          \<and> is_terminal (upper (status_str (status d))))
    \<and> (fst y = Inl PollTimeout \<longrightarrow>
          nonterminal_reply (provider (fst (snd y) - 1)) \<and> clock (fst (snd y)) - start > T)
    \<and> (\<forall>e. fst y = Inl e \<longrightarrow> e = PollTimeout
          \<or> to_status_dict (provider (fst (snd y) - 1)) = Inl e
          \<or> (\<exists>m. e = External m) \<and> sleep_time I (a + (fst (snd y) - n)) < 0)
    \<and> snd (snd y) = sl @ map (sleep_time I) [Suc a ..< a + (fst (snd y) - n)]"
  have "?P provider clock I T start a n sl (r, q, sl')"
  proof (rule poll_loop.raw_induct [where P = ?P, OF _ assms], goal_cases)
    case (1 f provider clock I T start a n sl y)
    show ?case
    proof (cases "to_status_dict (provider n)")
      case (Inl e)
      then show ?thesis
        using 1(2) to_status_dict_error [OF Inl] by auto
    next
      case (Inr d)
      show ?thesis
      proof (cases "is_terminal (upper (status_str (status d)))")
        case True
        then show ?thesis using 1(2) Inr by auto
      next
        case nt: False
        show ?thesis
        proof (cases "clock (Suc n) - start > T")
          case True
          then show ?thesis using 1(2) Inr nt by (auto simp: nonterminal_reply_def)
        next
          case le: False
          show ?thesis
          proof (cases "sleep_time I (a + 1) < 0")
            case True
            then show ?thesis using 1(2) Inr nt le by auto
          next
            case False
            then have "f provider clock I T start (a + 1) (Suc n) (sl @ [sleep_time I (a + 1)]) = Some y"
              using 1(2) Inr nt le by simp
            from 1(1) [OF this] have ih:
              "Suc n < fst (snd y)"
              "\<forall>d. fst y = Inr d \<longrightarrow>
                 to_status_dict (provider (fst (snd y) - 1)) = Inr d
                 \<and> is_terminal (upper (status_str (status d)))"
              "fst y = Inl PollTimeout \<longrightarrow>
                 nonterminal_reply (provider (fst (snd y) - 1)) \<and> clock (fst (snd y)) - start > T"
              "\<forall>e. fst y = Inl e \<longrightarrow> e = PollTimeout
                 \<or> to_status_dict (provider (fst (snd y) - 1)) = Inl e
                 \<or> (\<exists>m. e = External m) \<and> sleep_time I (a + 1 + (fst (snd y) - Suc n)) < 0"
              "snd (snd y) = (sl @ [sleep_time I (a + 1)])
                 @ map (sleep_time I) [Suc (a + 1) ..< a + 1 + (fst (snd y) - Suc n)]"
              by auto
            define u where "u = a + (fst (snd y) - n)"
            have eq: "a + 1 + (fst (snd y) - Suc n) = u"
              using ih(1) by (simp add: u_def)
            have "Suc a < u"
              using ih(1) by (simp add: u_def)
            then have up: "[Suc a ..< u] = Suc a # [Suc (Suc a) ..< u]"
              by (rule upt_conv_Cons)
            have "n < fst (snd y)"
              using ih(1) by simp
            moreover have "\<forall>e. fst y = Inl e \<longrightarrow> e = PollTimeout
                 \<or> to_status_dict (provider (fst (snd y) - 1)) = Inl e
                 \<or> (\<exists>m. e = External m) \<and> sleep_time I u < 0"
              using ih(4) unfolding eq .
            moreover have "snd (snd y) = sl @ map (sleep_time I) [Suc a ..< u]"
              using ih(5) unfolding eq up by simp
            ultimately show ?thesis
              using ih(2,3) unfolding u_def by blast
          qed
        qed
      qed
    qed
  qed
  then show ?thesis unfolding fst_conv snd_conv .
qed

text \<open>
  C1: when the first two replies carry a non-terminal status and the third the status
  COMPLETED, the poll returns the third payload after exactly three queries and two sleeps,
  whatever the provider would answer afterwards. Both readings of the clock are within the
  timeout and the interval is not negative.
\<close>

theorem poll_returns_third_status:
  assumes "nonterminal_reply (provider 0)" and "nonterminal_reply (provider 1)"
    and "to_status_dict (provider 2) = Inr d"
    and "upper (status_str (status d)) = ''COMPLETED''"
    and "clock 1 - clock 0 \<le> timeout_sec" and "clock 2 - clock 0 \<le> timeout_sec"
    and "0 \<le> poll_interval"
  shows "poll_job_until_complete provider clock poll_interval timeout_sec =
         Some (Inr d, 3, [sleep_time poll_interval 1, sleep_time poll_interval 2])"
proof -
  let ?loop = "poll_loop provider clock poll_interval timeout_sec (clock 0)"
  let ?s1 = "sleep_time poll_interval 1" and ?s2 = "sleep_time poll_interval 2"
  have t: "is_terminal (upper (status_str (status d)))"
    using assms(4) by (simp add: is_terminal_def)
  have "poll_job_until_complete provider clock poll_interval timeout_sec = ?loop 1 (Suc 0) [?s1]"
    unfolding poll_job_until_complete_def
    using poll_step_nonterminal [of provider 0 clock "clock 0" timeout_sec poll_interval 0 "[]"]
      assms(1,5,7) by simp
  also have "\<dots> = ?loop 2 (Suc (Suc 0)) [?s1, ?s2]"
    using poll_step_nonterminal [of provider "Suc 0" clock "clock 0" timeout_sec poll_interval 1 "[?s1]"]
      assms(2,6,7) by (simp add: numeral_2_eq_2)
  also have "\<dots> = Some (Inr d, 3, [?s1, ?s2])"
    using poll_step_terminal [of provider "Suc (Suc 0)" d clock poll_interval timeout_sec "clock 0" 2]
      assms(3) t by (simp add: numeral_2_eq_2 numeral_3_eq_3)
  finally show ?thesis .
qed

lemma upper_RUNNING: "upper ''RUNNING'' = ''RUNNING''"
  by (simp add: upper_def upper_char_def)

lemma upper_COMPLETED: "upper ''COMPLETED'' = ''COMPLETED''"
  by (simp add: upper_def upper_char_def)

lemma nonterminal_running: "nonterminal_reply (DictAttrReply running)"
  by (simp add: nonterminal_reply_def running_def upper_RUNNING is_terminal_def)

theorem poll_returns_third_status_witness:
  "poll_job_until_complete
     (\<lambda>n. if n < 2 then DictAttrReply running else MappingReply completed)
     (\<lambda>n. 4 * real n) 3 1800
   = Some (Inr completed, 3, [3, 3])"
  using poll_returns_third_status
    [of "\<lambda>n. if n < 2 then DictAttrReply running else MappingReply completed" completed
        "\<lambda>n. 4 * real n" 1800 3]
  by (simp add: nonterminal_running completed_def upper_COMPLETED sleep_time_def)

text \<open>
  C2: for a provider that never reports a terminal status (and a non-negative interval),
  the poll ends in \<open>PollTimeout\<close> at the first reading of the clock that exceeds the timeout
  since \<open>start\<close>; it ends in nothing else, a timeout is only ever raised on a reading beyond
  the limit, and while every reading stays within the limit the poll goes on for ever.
\<close>

theorem poll_timeout:
  assumes nt: "\<forall>k. nonterminal_reply (provider k)" and I: "0 \<le> poll_interval"
  shows "(\<forall>m. (\<forall>k<m. clock (Suc k) - clock 0 \<le> timeout_sec)
              \<and> clock (Suc m) - clock 0 > timeout_sec \<longrightarrow>
            poll_job_until_complete provider clock poll_interval timeout_sec
            = Some (Inl PollTimeout, Suc m, map (sleep_time poll_interval) [1 ..< Suc m]))
       \<and> (\<forall>r q sl. poll_job_until_complete provider clock poll_interval timeout_sec
                   = Some (r, q, sl) \<longrightarrow>
            r = Inl PollTimeout \<and> 0 < q \<and> clock q - clock 0 > timeout_sec)
       \<and> ((\<forall>k. clock (Suc k) - clock 0 \<le> timeout_sec) \<longrightarrow>
            poll_job_until_complete provider clock poll_interval timeout_sec = None)"
proof -
  let ?poll = "poll_job_until_complete provider clock poll_interval timeout_sec"
  have a: "?poll = Some (Inl PollTimeout, Suc m, map (sleep_time poll_interval) [1 ..< Suc m])"
    if "\<forall>k<m. clock (Suc k) - clock 0 \<le> timeout_sec" "clock (Suc m) - clock 0 > timeout_sec"
    for m
    unfolding poll_job_until_complete_def
    using poll_loop_timeout [where provider = provider and I = poll_interval and clock = clock
        and m = m and start = "clock 0" and T = timeout_sec and n = 0 and sl = "[]"]
      nt I that by simp
  have b: "r = Inl PollTimeout \<and> 0 < q \<and> clock q - clock 0 > timeout_sec"
    if "?poll = Some (r, q, sl)" for r q sl
  proof -
    from that have run: "poll_loop provider clock poll_interval timeout_sec (clock 0) 0 0 []
        = Some (r, q, sl)"
      by (simp add: poll_job_until_complete_def)
    note res = poll_loop_result [OF run]
    have q: "0 < q" using res by simp
    have nt': "nonterminal_reply (provider (q - 1))" using nt by simp
    have "r = Inl PollTimeout"
    proof (cases r)
      case (Inr d)
      then show ?thesis using res nt' by (simp add: nonterminal_reply_def)
    next
      case (Inl e)
      have "\<not> sleep_time poll_interval (0 + (q - 0)) < 0"
        using sleep_time_nonneg [OF I, of "0 + (q - 0)"] by simp
      moreover have "to_status_dict (provider (q - 1)) \<noteq> Inl e"
        using nt' by (auto simp: nonterminal_reply_def)
      ultimately show ?thesis using res Inl by blast
    qed
    then show ?thesis using res q by simp
  qed
  have c: "?poll = None" if le: "\<forall>k. clock (Suc k) - clock 0 \<le> timeout_sec"
  proof (cases ?poll)
    case None
    then show ?thesis .
  next
    case (Some y)
    obtain r q sl where y: "y = (r, q, sl)" by (cases y)
    from b [of r q sl] Some y have "0 < q" "clock q - clock 0 > timeout_sec" by simp_all
    moreover from \<open>0 < q\<close> obtain k where "q = Suc k" by (cases q) auto
    ultimately show ?thesis using le by (simp add: not_le [symmetric])
  qed
  show ?thesis using a b c by blast
qed

theorem poll_timeout_witness:
  "poll_job_until_complete (\<lambda>n. DictAttrReply running) (\<lambda>n. 4 * real n) 3 30
   = Some (Inl PollTimeout, 8, [3, 3, 3, 3, 3, 3, 3])"
proof -
  have nt: "\<forall>k. nonterminal_reply ((\<lambda>n. DictAttrReply running) k)"
    by (simp add: nonterminal_running)
  have I: "(0::real) \<le> 3" by simp
  have le: "\<forall>k<7. (\<lambda>n. 4 * real n) (Suc k) - (\<lambda>n. 4 * real n) 0 \<le> 30"
    by auto
  have gt: "(\<lambda>n. 4 * real n) (Suc 7) - (\<lambda>n. 4 * real n) 0 > 30"
    by simp
  have sl: "map (sleep_time 3) [1 ..< Suc 7] = [3, 3, 3, 3, 3, 3, 3]"
    by (simp add: sleep_time_def upt_rec)
  from poll_timeout [OF nt I, of "\<lambda>n. 4 * real n" 30] le gt
  have "poll_job_until_complete (\<lambda>n. DictAttrReply running) (\<lambda>n. 4 * real n) 3 30
        = Some (Inl PollTimeout, Suc 7, map (sleep_time 3) [1 ..< Suc 7])"
    by blast
  then show ?thesis unfolding sl by simp
qed

lemma poll_example_run:
  "poll_job_until_complete (\<lambda>n. DictAttrReply running) (\<lambda>n. 4 * real n) 3 30
   = Some (Inl PollTimeout, 8, [3, 3, 3, 3, 3, 3, 3])"
proof -
  have sl: "map (sleep_time 3) [Suc 0 ..< Suc 7] = [3, 3, 3, 3, 3, 3, 3]"
    by (simp add: sleep_time_def upt_rec)
  have "poll_loop (\<lambda>n. DictAttrReply running) (\<lambda>n. 4 * real n) 3 30 0 0 0 []
        = Some (Inl PollTimeout, Suc 7, [] @ map (sleep_time 3) [Suc 0 ..< Suc 7])"
    by (rule poll_loop_timeout) (auto simp: nonterminal_running)
  then show ?thesis
    unfolding sl by (simp add: poll_job_until_complete_def)
qed


text \<open>
  C3, as stated, fails: with a base interval of 20 the sleep at attempt 5 is 15, not the
  base interval.
\<close>

theorem sleep_time_counterexample: "sleep_time 20 5 = 15 \<and> sleep_time 20 5 \<noteq> 20"
  by (simp add: sleep_time_def)

text \<open>
  C3, amended: the sleep is \<open>min(I * (1 + floor(a / 10)), 15)\<close> for the attempt counter
  \<open>a\<close>; it is \<open>min(I, 15)\<close> for \<open>a\<close> from 0 to 9 (the base interval itself when that is at
  most 15), \<open>min(2 * I, 15)\<close> for \<open>a\<close> from 10 to 19, and never more than 15. The counter
  goes up by one each cycle, before the sleep is computed: the sleeps of a run that made
  \<open>q\<close> queries are those of the attempts 1 to \<open>q - 1\<close>, in order.
\<close>

theorem sleep_time_backoff:
  "sleep_time I a = min (I * (1 + of_int \<lfloor>real a / 10\<rfloor>)) 15
   \<and> (a \<le> 9 \<longrightarrow> sleep_time I a = min I 15)
   \<and> (a \<le> 9 \<and> I \<le> 15 \<longrightarrow> sleep_time I a = I)
   \<and> (10 \<le> a \<and> a \<le> 19 \<longrightarrow> sleep_time I a = min (2 * I) 15)
   \<and> sleep_time I a \<le> 15
   \<and> (\<forall>r q sl. poll_job_until_complete provider clock I T = Some (r, q, sl) \<longrightarrow>
         sl = map (sleep_time I) [1 ..< q])"
proof -
  have fl: "\<lfloor>real a / 10\<rfloor> = int (a div 10)"
    using floor_divide_of_nat_eq [of a 10, where ?'a = real] by simp
  have f: "sleep_time I a = min (I * (1 + of_int \<lfloor>real a / 10\<rfloor>)) 15"
    unfolding fl by (simp add: sleep_time_def)
  have lo: "sleep_time I a = min I 15" if "a \<le> 9"
    using that by (simp add: sleep_time_def)
  have mid: "sleep_time I a = min (2 * I) 15" if "10 \<le> a" "a \<le> 19"
  proof -
    have "a div 10 = 1" using that by simp
    then show ?thesis by (simp add: sleep_time_def)
  qed
  have cap: "sleep_time I a \<le> 15"
    by (simp add: sleep_time_def)
  have run: "sl = map (sleep_time I) [1 ..< q]"
    if "poll_job_until_complete provider clock I T = Some (r, q, sl)" for r q sl
    using poll_loop_result [of provider clock I T "clock 0" 0 0 "[]" r q sl] that
    by (simp add: poll_job_until_complete_def)
  show ?thesis using f lo mid cap run by (simp add: min_def)
qed

theorem sleep_time_backoff_witness:
  "sleep_time 3 5 = 3 \<and> sleep_time 20 5 = 15 \<and> sleep_time 3 12 = 6 \<and> sleep_time 3 70 \<le> 15
   \<and> [3, 3, 3, 3, 3, 3, 3] = map (sleep_time 3) [1 ..< 8]"
  using sleep_time_backoff [of 3 5 "\<lambda>n. DictAttrReply running" "\<lambda>n. 4 * real n" 30]
    sleep_time_backoff [of 20 5 "\<lambda>n. DictAttrReply running" "\<lambda>n. 4 * real n" 30]
    sleep_time_backoff [of 3 12 "\<lambda>n. DictAttrReply running" "\<lambda>n. 4 * real n" 30]
    sleep_time_backoff [of 3 70 "\<lambda>n. DictAttrReply running" "\<lambda>n. 4 * real n" 30]
    poll_example_run
  by simp



section \<open>Properties of Job Submission, the Notes Generator and the Result Resolver\<close>

lemma en_US_supported: "''en_US'' \<in> set TARGET_LOCALES"
  by (simp add: TARGET_LOCALES_def)

lemma xx_XX_unsupported: "''xx_XX'' \<notin> set TARGET_LOCALES"
  by (simp add: TARGET_LOCALES_def)

text \<open>
  C4: \<open>TARGET_LOCALES\<close> holds 27 distinct locales. For a locale outside it
  \<open>create_dub_job\<close> fails with \<open>InvalidLocale\<close> and has made no call: the file is not opened
  and no request is sent. For a locale in it no \<open>InvalidLocale\<close> is raised.
\<close>

theorem create_dub_job_locale_check:
  "length TARGET_LOCALES = 27 \<and> distinct TARGET_LOCALES
   \<and> (target_locale \<notin> set TARGET_LOCALES \<longrightarrow>
        create_dub_job fs create file_path target_locale priority
        = (Inl (InvalidLocale (invalid_locale_message target_locale)), []))
   \<and> (target_locale \<in> set TARGET_LOCALES \<longrightarrow>
        (\<forall>msg. fst (create_dub_job fs create file_path target_locale priority)
               \<noteq> Inl (InvalidLocale msg)))"
proof -
  have "length TARGET_LOCALES = 27" "distinct TARGET_LOCALES"
    by (simp_all add: TARGET_LOCALES_def)
  moreover have "create_dub_job fs create file_path target_locale priority
        = (Inl (InvalidLocale (invalid_locale_message target_locale)), [])"
    if "target_locale \<notin> set TARGET_LOCALES"
    using that by (simp add: create_dub_job_def)
  moreover have "fst (create_dub_job fs create file_path target_locale priority)
               \<noteq> Inl (InvalidLocale msg)"
    if "target_locale \<in> set TARGET_LOCALES" for msg
    using that
    by (simp add: create_dub_job_def Let_def split: option.splits create_reply.splits)
  ultimately show ?thesis by blast
qed

theorem create_dub_job_locale_check_witness:
  "create_dub_job example_fs (\<lambda>ls n f p. DictReply no_id_fields) ''downloads/talk.mp4'' ''xx_XX'' ''LOW''
     = (Inl (InvalidLocale (invalid_locale_message ''xx_XX'')), [])
   \<and> (\<forall>msg. fst (create_dub_job example_fs (\<lambda>ls n f p. DictReply no_id_fields)
                    ''downloads/talk.mp4'' ''en_US'' ''LOW'') \<noteq> Inl (InvalidLocale msg))"
  using create_dub_job_locale_check
      [of "''xx_XX''" example_fs "\<lambda>ls n f p. DictReply no_id_fields" "''downloads/talk.mp4''" "''LOW''"]
    create_dub_job_locale_check
      [of "''en_US''" example_fs "\<lambda>ls n f p. DictReply no_id_fields" "''downloads/talk.mp4''" "''LOW''"]
    en_US_supported xx_XX_unsupported
  by blast

text \<open>
  C5, as stated, fails: for a reply that has neither \<open>id\<close> nor \<open>job_id\<close> the function
  returns normally, with the identifier \<open>None\<close>.
\<close>

theorem create_dub_job_missing_id_counterexample:
  "create_dub_job example_fs (\<lambda>ls n f p. DictReply no_id_fields) ''downloads/talk.mp4'' ''en_US'' ''LOW''
   = (Inr \<lparr>ns_id = None, ns_raw = no_id_fields\<rparr>,
      [OpenFile ''downloads/talk.mp4'', CreateRequest [''en_US''] ''talk.mp4'' ''video bytes'' ''LOW''])"
  by (simp add: create_dub_job_def example_fs_def en_US_supported no_id_fields_def basename_def)

text \<open>
  C5, amended: for a supported locale and a readable file, a reply (a \<open>dict\<close> or an object
  with \<open>__dict__\<close>) in which \<open>id\<close> and \<open>job_id\<close> are both missing or \<open>None\<close> gives a result
  whose identifier is \<open>None\<close>, with the reply as \<open>raw\<close>; the "Unexpected response format"
  error is raised only for a reply that has no \<open>__dict__\<close>.
\<close>

theorem create_dub_job_missing_id:
  assumes "target_locale \<in> set TARGET_LOCALES" and "fs file_path = Some f"
  shows "(\<forall>res. create [target_locale] (basename file_path) f priority \<in> {DictReply res, ObjectReply res}
            \<and> id_field res \<in> {Absent, PyNone} \<and> job_id_field res \<in> {Absent, PyNone} \<longrightarrow>
          fst (create_dub_job fs create file_path target_locale priority)
          = Inr \<lparr>ns_id = None, ns_raw = res\<rparr>)
       \<and> (\<forall>res msg. create [target_locale] (basename file_path) f priority = NoDictReply res msg \<longrightarrow>
          fst (create_dub_job fs create file_path target_locale priority)
          = Inl (UnexpectedResponseFormat (''Unexpected response format: '' @ msg)))"
  using assms by (auto simp: create_dub_job_def Let_def)

theorem create_dub_job_missing_id_witness:
  "fst (create_dub_job example_fs (\<lambda>ls n f p. ObjectReply no_id_fields) ''downloads/talk.mp4'' ''en_US'' ''LOW'')
     = Inr \<lparr>ns_id = None, ns_raw = no_id_fields\<rparr>
   \<and> fst (create_dub_job example_fs (\<lambda>ls n f p. NoDictReply no_id_fields ''no __dict__'')
            ''downloads/talk.mp4'' ''en_US'' ''LOW'')
     = Inl (UnexpectedResponseFormat (''Unexpected response format: '' @ ''no __dict__''))"
proof -
  have fs: "example_fs ''downloads/talk.mp4'' = Some ''video bytes''"
    by (simp add: example_fs_def)
  have ids: "id_field no_id_fields \<in> {Absent, PyNone}" "job_id_field no_id_fields \<in> {Absent, PyNone}"
    by (simp_all add: no_id_fields_def)
  show ?thesis
    using create_dub_job_missing_id
        [where fs = example_fs and file_path = "''downloads/talk.mp4''" and f = "''video bytes''"
           and target_locale = "''en_US''" and priority = "''LOW''"
           and create = "\<lambda>ls n f p. ObjectReply no_id_fields"]
      create_dub_job_missing_id
        [where fs = example_fs and file_path = "''downloads/talk.mp4''" and f = "''video bytes''"
           and target_locale = "''en_US''" and priority = "''LOW''"
           and create = "\<lambda>ls n f p. NoDictReply no_id_fields ''no __dict__''"]
      en_US_supported fs ids
    by simp
qed

text \<open>
  C8: when the model call raises an exception, \<open>generate_notes_from_text\<close> returns
  normally the text "- (Error generating notes) " followed by the exception's message;
  when the call succeeds it returns the reply's content stripped.
\<close>

theorem generate_notes_never_raises:
  "(invoke (NOTES_PROMPT_format text) = RaisesException e \<longrightarrow>
      generate_notes_from_text invoke text = Inr (''- (Error generating notes) '' @ e)
      \<and> (\<exists>notes. generate_notes_from_text invoke text = Inr notes
            \<and> prefix ''- (Error generating notes)'' notes))
   \<and> (invoke (NOTES_PROMPT_format text) = Content c \<longrightarrow>
      generate_notes_from_text invoke text = Inr (strip c))"
  by (auto simp: generate_notes_from_text_def Let_def prefix_def)

theorem generate_notes_never_raises_witness:
  "generate_notes_from_text (\<lambda>p. RaisesException ''503 Service Unavailable'') ''Hello world''
     = Inr ''- (Error generating notes) 503 Service Unavailable''
   \<and> generate_notes_from_text (\<lambda>p. Content ''  - greeting '') ''Hello world''
     = Inr ''- greeting''"
proof -
  have s: "strip ''  - greeting '' = ''- greeting''"
    by (simp add: strip_def is_space_def)
  show ?thesis
    using generate_notes_never_raises
        [of "\<lambda>p. RaisesException ''503 Service Unavailable''" "''Hello world''" "''503 Service Unavailable''"]
      generate_notes_never_raises
        [of "\<lambda>p. Content ''  - greeting ''" "''Hello world''" _ "''  - greeting ''"] s
    by simp
qed



section \<open>Properties of the subtitle helpers\<close>
























text \<open>
  C7: the subtitle bytes of the scenario give "Hello world", a newline, "Second line".
\<close>

theorem srt_example_plain_text:
  "srt_to_plain_text srt_example = ''Hello world'' @ [CHR 0x0A] @ ''Second line''"
  by code_simp





end
